theory Spec2Isabelle
  imports Main
begin

section \<open>Errors\<close>

text \<open>
  Go's \<open>error\<close> is an interface. The engine looks at three things of an error value: its
  message (\<open>Error()\<close>), whether its dynamic type implements \<open>net.Error\<close>, and, when it
  does, the flags \<open>Timeout()\<close> and \<open>Temporary()\<close>. \<open>PlainError\<close> stands for the values
  of \<open>errors.New\<close> and \<open>fmt.Errorf\<close>; \<open>NetError msg timeout temporary\<close> for every
  value that implements \<open>net.Error\<close>; \<open>Permanent err\<close> is the value of
  \<open>backoff.Permanent(err)\<close>, a \<open>*backoff.PermanentError\<close> whose field \<open>Err\<close> is \<open>err\<close>. Its
  message is that of \<open>err\<close>, and it does not implement \<open>net.Error\<close>. Any of these can
  come from a conditioner, which is the caller's code.
\<close>

datatype error =
    PlainError string
  | NetError string bool bool
  | Permanent error

fun Error :: "error \<Rightarrow> string" where
  "Error (PlainError msg) = msg"
| "Error (NetError msg timeout temporary) = msg"
| "Error (Permanent err) = Error err"

fun isNetError :: "error \<Rightarrow> bool" where
  "isNetError (PlainError msg) = False"
| "isNetError (NetError msg timeout temporary) = True"
| "isNetError (Permanent err) = False"

fun Timeout :: "error \<Rightarrow> bool" where
  "Timeout (PlainError msg) = False"
| "Timeout (NetError msg timeout temporary) = timeout"
| "Timeout (Permanent err) = False"

fun Temporary :: "error \<Rightarrow> bool" where
  "Temporary (PlainError msg) = False"
| "Temporary (NetError msg timeout temporary) = temporary"
| "Temporary (Permanent err) = False"

text \<open>
  The type assertion \<open>err.(*PermanentError)\<close> of \<open>backoff.Retry\<close>: the wrapped error when
  the assertion holds.
\<close>

fun asPermanentError :: "error \<Rightarrow> error option" where
  "asPermanentError (Permanent err) = Some err"
| "asPermanentError (PlainError msg) = None"
| "asPermanentError (NetError msg timeout temporary) = None"

section \<open>Strings\<close>

text \<open>\<open>strings.HasPrefix\<close> and \<open>strings.Contains\<close> on byte strings.\<close>

fun HasPrefix :: "string \<Rightarrow> string \<Rightarrow> bool" where
  "HasPrefix s [] = True"
| "HasPrefix [] (c # p) = False"
| "HasPrefix (x # s) (c # p) = (x = c \<and> HasPrefix s p)"

fun Contains :: "string \<Rightarrow> string \<Rightarrow> bool" where
  "Contains [] substr = (substr = [])"
| "Contains (x # s) substr = (HasPrefix (x # s) substr \<or> Contains s substr)"

text \<open>
  The rendering of an integer in decimal and in the bases 2, 8 and 16, and a fragment of
  \<open>fmt.Sprintf\<close> over integer operands: the verbs \<open>%d\<close> and \<open>%v\<close> (the library itself
  formats only \<open>bad status code %d\<close> with one integer), \<open>%b\<close>, \<open>%o\<close>, \<open>%x\<close>, \<open>%X\<close>,
  the literal \<open>%%\<close>, a verb that does not apply to integers, a verb without an operand, a
  \<open>%\<close> that ends the format, and operands that no verb consumes. Flags, widths,
  precisions, argument indexes, the verbs \<open>%c\<close>, \<open>%q\<close>, \<open>%U\<close>, \<open>%O\<close>, \<open>%T\<close> and operands
  of other types are outside the fragment.
\<close>

definition digit :: "nat \<Rightarrow> char" where
  "digit d = ''0123456789abcdef'' ! d"

fun utoa :: "nat \<Rightarrow> string" where
  "utoa n = (if n < 10 then [digit n] else utoa (n div 10) @ [digit (n mod 10)])"

declare utoa.simps [simp del]

definition itoa :: "int \<Rightarrow> string" where
  "itoa i = (if i < 0 then CHR ''-'' # utoa (nat (- i)) else utoa (nat i))"

function utoa_base :: "nat \<Rightarrow> nat \<Rightarrow> string" where
  "utoa_base b n =
     (if b < 2 \<or> n < b then [digit n] else utoa_base b (n div b) @ [digit (n mod b)])"
  by pat_completeness auto
termination
  by (relation "measure (\<lambda>(b, n). n)") auto

declare utoa_base.simps [simp del]

definition itoa_base :: "nat \<Rightarrow> int \<Rightarrow> string" where
  "itoa_base b i =
     (if i < 0 then CHR ''-'' # utoa_base b (nat (- i)) else utoa_base b (nat i))"

definition upper :: "char \<Rightarrow> char" where
  "upper c =
     (if c = CHR ''a'' then CHR ''A'' else if c = CHR ''b'' then CHR ''B''
      else if c = CHR ''c'' then CHR ''C'' else if c = CHR ''d'' then CHR ''D''
      else if c = CHR ''e'' then CHR ''E'' else if c = CHR ''f'' then CHR ''F'' else c)"

text \<open>One verb applied to one integer operand.\<close>

definition printVerb :: "char \<Rightarrow> int \<Rightarrow> string" where
  "printVerb verb v =
     (if verb = CHR ''d'' \<or> verb = CHR ''v'' then itoa v
      else if verb = CHR ''b'' then itoa_base 2 v
      else if verb = CHR ''o'' then itoa_base 8 v
      else if verb = CHR ''x'' then itoa_base 16 v
      else if verb = CHR ''X'' then map upper (itoa_base 16 v)
      else ''%!'' @ [verb] @ ''(int='' @ itoa v @ '')'')"

text \<open>The operands that are left when the format ends.\<close>

fun extraOperands :: "int list \<Rightarrow> string" where
  "extraOperands [] = []"
| "extraOperands [v] = ''int='' @ itoa v"
| "extraOperands (v # v' # vs) = ''int='' @ itoa v @ '', '' @ extraOperands (v' # vs)"

definition extra :: "int list \<Rightarrow> string" where
  "extra vs = (if vs = [] then [] else ''%!(EXTRA '' @ extraOperands vs @ '')'')"

fun Sprintf :: "string \<Rightarrow> int list \<Rightarrow> string" where
  "Sprintf [] vs = extra vs"
| "Sprintf [c] vs = (if c = CHR ''%'' then ''%!(NOVERB)'' @ extra vs else c # extra vs)"
| "Sprintf (c # verb # fs) vs =
     (if c \<noteq> CHR ''%'' then c # Sprintf (verb # fs) vs
      else if verb = CHR ''%'' then CHR ''%'' # Sprintf fs vs
      else
        (case vs of
           [] \<Rightarrow> ''%!'' @ [verb] @ ''(MISSING)'' @ Sprintf fs []
         | v # vs' \<Rightarrow> printVerb verb v @ Sprintf fs vs'))"

section \<open>Requests, responses and contexts\<close>

text \<open>
  A \<open>context.Context\<close> is the chain of its \<open>WithValue\<close> bindings, the newest first;
  \<open>Value\<close> returns the newest binding of a key, or nil. The library's key is the
  unexported type \<open>contextKeyAttempts\<close>; the values are of type \<open>interface{}\<close>.
\<close>

datatype ctxkey =
    contextKeyAttempts
  | otherKey string

datatype iface =
    IntValue int
  | StringValue string

type_synonym go_context = "(ctxkey \<times> iface) list"

definition WithValue :: "go_context \<Rightarrow> ctxkey \<Rightarrow> iface \<Rightarrow> go_context" where
  "WithValue parent key val = (key, val) # parent"

definition Value :: "go_context \<Rightarrow> ctxkey \<Rightarrow> iface option" where
  "Value c key = map_of c key"

record request =
  URL :: string
  ctx :: go_context

definition Context :: "request \<Rightarrow> go_context" where
  "Context r = ctx r"

definition WithContext :: "request \<Rightarrow> go_context \<Rightarrow> request" where
  "WithContext r c = r\<lparr>ctx := c\<rparr>"

text \<open>
  A response carries its status code and a pointer to the request it answers.
  \<open>http.Transport\<close> sets \<open>Response.Request\<close>; \<open>http.Client\<close> does not, so with another
  \<open>RoundTripper\<close> the field can be nil. Pointers are options: \<open>None\<close> is nil, both for
  \<open>Request\<close> and for a \<open>*http.Response\<close>.
\<close>

record response =
  StatusCode :: int
  Request :: "request option"

datatype panic = NilPointerDereference

section \<open>Attempt tracking\<close>

definition Attempts :: "response option \<Rightarrow> panic + int" where
  "Attempts rp =
     (case rp of
        None \<Rightarrow> Inl NilPointerDereference
      | Some r \<Rightarrow>
          (case Request r of
             None \<Rightarrow> Inl NilPointerDereference
           | Some rq \<Rightarrow>
               (case Value (Context rq) contextKeyAttempts of
                  Some (IntValue n) \<Rightarrow> Inr n
                | _ \<Rightarrow> Inr 0)))"

text \<open>
  \<open>addAttemptsToRequest\<close> assigns to \<open>resp.Request\<close> through the pointer; the model
  returns the response the pointer refers to afterwards. It reads \<open>resp.Request\<close> and
  calls \<open>Context()\<close> on it, so it panics on a nil response and on a nil request.
\<close>

definition addAttemptsToRequest :: "response option \<Rightarrow> int \<Rightarrow> panic + response option" where
  "addAttemptsToRequest rp n =
     (case rp of
        None \<Rightarrow> Inl NilPointerDereference
      | Some r \<Rightarrow>
          (case Request r of
             None \<Rightarrow> Inl NilPointerDereference
           | Some rq \<Rightarrow>
               Inr (Some (r\<lparr>Request :=
                 Some (WithContext rq
                   (WithValue (Context rq) contextKeyAttempts (IntValue n)))\<rparr>))))"

section \<open>Conditioners\<close>

type_synonym Conditioner = "response \<Rightarrow> bool \<times> error option"

definition OK :: "bool \<times> error option" where
  "OK = (False, None)"

definition RetriableError :: "string \<Rightarrow> bool \<times> error option" where
  "RetriableError msg = (True, Some (PlainError msg))"

definition RetriableErrorf :: "string \<Rightarrow> int list \<Rightarrow> bool \<times> error option" where
  "RetriableErrorf msg vs = (True, Some (PlainError (Sprintf msg vs)))"

definition PermanentError :: "string \<Rightarrow> bool \<times> error option" where
  "PermanentError msg = (False, Some (PlainError msg))"

definition PermanentErrorf :: "string \<Rightarrow> int list \<Rightarrow> bool \<times> error option" where
  "PermanentErrorf msg vs = (False, Some (PlainError (Sprintf msg vs)))"

text \<open>The conditioner that \<open>NewDefaultBackoffClient5XX\<close> installs.\<close>

definition conditioner5XX :: Conditioner where
  "conditioner5XX r =
     (if StatusCode r \<ge> 500 \<and> StatusCode r < 600 then
        RetriableErrorf ''bad status code %d'' [StatusCode r]
      else if StatusCode r \<ge> 200 \<and> StatusCode r < 300 then OK
      else PermanentErrorf ''bad status code %d'' [StatusCode r])"

section \<open>The error classifier\<close>

definition categorizeRequestError :: "error \<Rightarrow> error" where
  "categorizeRequestError reqErr =
     (if Contains (Error reqErr) ''EOF'' then reqErr
      else
        (case reqErr of
           NetError msg timeout temporary \<Rightarrow>
             (if timeout \<or> temporary then reqErr else Permanent reqErr)
         | _ \<Rightarrow> Permanent reqErr))"

section \<open>The environment of a call\<close>

text \<open>
  \<open>http.Client.Do\<close> returns a response and a nil error, or a non-nil error; with the
  error the response is nil, except when \<open>CheckRedirect\<close> fails. A transport is the
  outcome of each invocation, in order; a backoff policy is the value of each
  \<open>NextBackOff\<close>, in order, after \<open>Reset\<close>. The \<open>world\<close> counts the invocations of both.
\<close>

datatype outcome =
    Responded response
  | Failed "response option" error

type_synonym transport = "request \<Rightarrow> nat \<Rightarrow> outcome"

type_synonym BackOff = "nat \<Rightarrow> int"

record world =
  requests_sent :: nat
  backoffs_taken :: nat

definition httpClient_Do :: "transport \<Rightarrow> request \<Rightarrow> world \<Rightarrow> outcome \<times> world" where
  "httpClient_Do httpClient req w =
     (httpClient req (requests_sent w), w\<lparr>requests_sent := Suc (requests_sent w)\<rparr>)"

definition Stop :: int where
  "Stop = - 1"

definition Reset :: "world \<Rightarrow> world" where
  "Reset w = w\<lparr>backoffs_taken := 0\<rparr>"

definition NextBackOff :: "BackOff \<Rightarrow> world \<Rightarrow> int \<times> world" where
  "NextBackOff b w = (b (backoffs_taken w), w\<lparr>backoffs_taken := Suc (backoffs_taken w)\<rparr>)"

section \<open>The retry engine\<close>

text \<open>
  The variables \<open>resp\<close> and \<open>attempts\<close> that the operation's closure captures, and
  their values when \<open>Do\<close> starts (\<open>var resp *http.Response\<close>, \<open>var attempts int\<close>).
  The counter grows by one with each HTTP round trip of a single call, far from the
  range of Go's \<open>int\<close>, and is taken as a mathematical integer.
\<close>

record closure =
  resp :: "response option"
  attempts :: int

definition closure0 :: closure where
  "closure0 = \<lparr>resp = None, attempts = 0\<rparr>"

definition operation ::
  "transport \<Rightarrow> Conditioner \<Rightarrow> request \<Rightarrow> closure \<times> world \<Rightarrow> error option \<times> closure \<times> world"
where
  "operation httpClient conditioner req s =
     (case s of (c, w) \<Rightarrow>
        (let c1 = c\<lparr>attempts := attempts c + 1\<rparr> in
         (case httpClient_Do httpClient req w of
            (Failed rp reqErr, w1) \<Rightarrow>
              (Some (categorizeRequestError reqErr), c1\<lparr>resp := rp\<rparr>, w1)
          | (Responded r, w1) \<Rightarrow>
              (case conditioner r of
                 (shouldRetry, None) \<Rightarrow> (None, c1\<lparr>resp := Some r\<rparr>, w1)
               | (shouldRetry, Some reqErr) \<Rightarrow>
                   (if shouldRetry then (Some reqErr, c1\<lparr>resp := Some r\<rparr>, w1)
                    else (Some (Permanent reqErr), c1\<lparr>resp := Some r\<rparr>, w1))))))"

text \<open>
  Modelled from the spec: \<open>backoff.Retry\<close> belongs to the library
  \<open>github.com/cenkalti/backoff\<close>, which the repository imports and does not contain.
  It resets the policy and runs the operation until it returns nil (the result is nil),
  returns a \<open>*backoff.PermanentError\<close> (the result is the error it wraps, and the policy
  is not consulted), or the policy answers \<open>Stop\<close> (the result is the operation's last
  error). The sleep between two attempts has no effect on the result and is left out.
  A run that never ends is \<open>None\<close>.
\<close>

partial_function (option) RetryLoop ::
  "(closure \<times> world \<Rightarrow> error option \<times> closure \<times> world) \<Rightarrow> BackOff \<Rightarrow>
   closure \<times> world \<Rightarrow> (error option \<times> closure \<times> world) option"
where
  "RetryLoop opn b s =
     (case opn s of
        (None, s1) \<Rightarrow> Some (None, s1)
      | (Some err, c1, w1) \<Rightarrow>
          (case asPermanentError err of
             Some permanent \<Rightarrow> Some (Some permanent, c1, w1)
           | None \<Rightarrow>
               (case NextBackOff b w1 of
                  (next, w2) \<Rightarrow>
                    if next = Stop then Some (Some err, c1, w2)
                    else RetryLoop opn b (c1, w2))))"

definition Retry ::
  "(closure \<times> world \<Rightarrow> error option \<times> closure \<times> world) \<Rightarrow> BackOff \<Rightarrow>
   closure \<times> world \<Rightarrow> (error option \<times> closure \<times> world) option"
where
  "Retry opn b s = (case s of (c, w) \<Rightarrow> RetryLoop opn b (c, Reset w))"

text \<open>
  \<open>NewBackoffClient httpClient backoffer conditioner\<close> is the client's \<open>Do\<close>: the result
  is \<open>None\<close> when the call never returns, a panic, or the pair \<open>(resp, err)\<close>.
\<close>

definition NewBackoffClient ::
  "transport \<Rightarrow> BackOff \<Rightarrow> Conditioner \<Rightarrow> request \<Rightarrow> world \<Rightarrow>
   ((panic + response option \<times> error option) \<times> world) option"
where
  "NewBackoffClient httpClient backoffer conditioner req w =
     (case Retry (operation httpClient conditioner req) backoffer
             (closure0, w) of
        None \<Rightarrow> None
      | Some (err, c, w') \<Rightarrow>
          (case addAttemptsToRequest (resp c) (attempts c) of
             Inl p \<Rightarrow> Some (Inl p, w')
           | Inr rp \<Rightarrow> Some (Inr (rp, err), w')))"

text \<open>
  \<open>NewDefaultBackoffClient5XX\<close> takes \<open>backoff.NewExponentialBackOff()\<close> as its policy;
  the model takes that policy's answers as the parameter \<open>exponential\<close>.
\<close>

definition NewDefaultBackoffClient5XX ::
  "transport \<Rightarrow> BackOff \<Rightarrow> request \<Rightarrow> world \<Rightarrow>
   ((panic + response option \<times> error option) \<times> world) option"
where
  "NewDefaultBackoffClient5XX httpClient exponential =
     NewBackoffClient httpClient exponential conditioner5XX"

text \<open>The world at the start of a call: nothing has been sent yet.\<close>

definition world0 :: world where
  "world0 = \<lparr>requests_sent = 0, backoffs_taken = 0\<rparr>"

text \<open>
  The error that the operation returns to \<open>backoff.Retry\<close> for one outcome of the
  transport (lemma \<open>operation_verdict\<close> below ties it to \<open>operation\<close>).
\<close>

definition verdict :: "Conditioner \<Rightarrow> outcome \<Rightarrow> error option" where
  "verdict conditioner out =
     (case out of
        Failed rp reqErr \<Rightarrow> Some (categorizeRequestError reqErr)
      | Responded r \<Rightarrow>
          (case conditioner r of
             (shouldRetry, None) \<Rightarrow> None
           | (shouldRetry, Some reqErr) \<Rightarrow>
               (if shouldRetry then Some reqErr else Some (Permanent reqErr))))"

text \<open>The response pointer after the operation has seen one outcome.\<close>

definition received :: "outcome \<Rightarrow> response option" where
  "received out = (case out of Failed rp reqErr \<Rightarrow> rp | Responded r \<Rightarrow> Some r)"

text \<open>
  An attempt after which \<open>backoff.Retry\<close> asks the policy for a delay: the operation
  returns an error that is not a \<open>*backoff.PermanentError\<close>.
\<close>

definition retriable :: "Conditioner \<Rightarrow> outcome \<Rightarrow> bool" where
  "retriable conditioner out =
     (case verdict conditioner out of
        None \<Rightarrow> False
      | Some err \<Rightarrow> asPermanentError err = None)"

text \<open>
  The response \<open>r\<close>, whose request is \<open>rq\<close>, with the attempt count bound in that
  request's context.
\<close>

definition tagged :: "response \<Rightarrow> request \<Rightarrow> int \<Rightarrow> response" where
  "tagged r rq n =
     r\<lparr>Request :=
       Some (WithContext rq (WithValue (Context rq) contextKeyAttempts (IntValue n)))\<rparr>"

section \<open>Fixtures\<close>

text \<open>
  The servers and policies of the repository's tests and of the scenarios: a request
  with an empty context, one whose context already carries a foreign binding, a server
  that answers 500 and then 200, a server that always answers one status, the same
  behind a \<open>RoundTripper\<close> that leaves \<open>Response.Request\<close> unset, a transport that always
  times out, one that fails with an error that is neither a timeout nor temporary, a
  policy that grants \<open>n\<close> delays of \<open>d\<close> nanoseconds and then stops, and a conditioner
  that asks for a retry with a diagnostic made by \<open>backoff.Permanent\<close>.
\<close>

definition example_request :: request where
  "example_request = \<lparr>URL = ''http://127.0.0.1:8080/'', ctx = []\<rparr>"

definition traced_request :: request where
  "traced_request =
     \<lparr>URL = ''http://127.0.0.1:8080/'', ctx = [(otherKey ''trace'', StringValue ''f00'')]\<rparr>"

definition reply :: "int \<Rightarrow> request \<Rightarrow> response" where
  "reply code req = \<lparr>StatusCode = code, Request = Some req\<rparr>"

definition bare_reply :: "int \<Rightarrow> response" where
  "bare_reply code = \<lparr>StatusCode = code, Request = None\<rparr>"

definition server_500_then_200 :: transport where
  "server_500_then_200 req i =
     (if i = 0 then Responded (reply 500 req) else Responded (reply 200 req))"

definition server_always :: "int \<Rightarrow> transport" where
  "server_always code req i = Responded (reply code req)"

definition bare_server_always :: "int \<Rightarrow> transport" where
  "bare_server_always code req i = Responded (bare_reply code)"

definition retry_with_permanent :: Conditioner where
  "retry_with_permanent r = (True, Some (Permanent (PlainError ''bad'')))"

definition always_timeout :: transport where
  "always_timeout req i =
     Failed None (NetError ''net/http: timeout awaiting response headers'' True True)"

definition no_such_host :: transport where
  "no_such_host req i =
     Failed None (NetError ''dial tcp: lookup nohost.invalid: no such host'' False False)"

definition stop_after :: "nat \<Rightarrow> int \<Rightarrow> BackOff" where
  "stop_after n d k = (if k < n then d else Stop)"

section \<open>Substrings\<close>

lemma HasPrefix_iff: "HasPrefix s p \<longleftrightarrow> (\<exists>q. s = p @ q)"
  by (induction s p rule: HasPrefix.induct) auto

lemma Contains_iff: "Contains s sub \<longleftrightarrow> (\<exists>p q. s = p @ sub @ q)"
proof (induction s)
  case Nil
  then show ?case by auto
next
  case (Cons x s)
  show ?case
  proof
    assume "Contains (x # s) sub"
    then consider "HasPrefix (x # s) sub" | "Contains s sub" by auto
    then show "\<exists>p q. x # s = p @ sub @ q"
    proof cases
      case 1
      then obtain q where "x # s = sub @ q" by (auto simp: HasPrefix_iff)
      then have "x # s = [] @ sub @ q" by simp
      then show ?thesis by blast
    next
      case 2
      then obtain p q where "s = p @ sub @ q" using Cons.IH by blast
      then have "x # s = (x # p) @ sub @ q" by simp
      then show ?thesis by blast
    qed
  next
    assume "\<exists>p q. x # s = p @ sub @ q"
    then obtain p q where e: "x # s = p @ sub @ q" by blast
    show "Contains (x # s) sub"
    proof (cases p)
      case Nil
      with e have "HasPrefix (x # s) sub" by (auto simp: HasPrefix_iff)
      then show ?thesis by simp
    next
      case (Cons y p')
      with e have "s = p' @ sub @ q" by simp
      then have "Contains s sub" using Cons.IH by blast
      then show ?thesis by simp
    qed
  qed
qed

section \<open>One attempt, and the loop around it\<close>

lemma operation_eq:
  "operation h cond req (c, w) =
     (verdict cond (h req (requests_sent w)),
      \<lparr>resp = received (h req (requests_sent w)), attempts = attempts c + 1\<rparr>,
      w\<lparr>requests_sent := Suc (requests_sent w)\<rparr>)"
  by (cases "h req (requests_sent w)")
     (auto simp: operation_def verdict_def received_def httpClient_Do_def Let_def
           split: prod.splits option.splits)

lemma operation_verdict:
  "fst (operation h cond req (c, w)) = verdict cond (h req (requests_sent w))"
  by (simp add: operation_eq)

lemma retriableE:
  assumes "retriable cond out"
  obtains err where "verdict cond out = Some err" and "asPermanentError err = None"
  using assms by (auto simp: retriable_def split: option.splits)

lemma RetryLoop_nil:
  "opn s = (None, s1) \<Longrightarrow> RetryLoop opn b s = Some (None, s1)"
  by (subst RetryLoop.simps) simp

lemma RetryLoop_permanent:
  "opn s = (Some err, c1, w1) \<Longrightarrow> asPermanentError err = Some e \<Longrightarrow>
   RetryLoop opn b s = Some (Some e, c1, w1)"
  by (subst RetryLoop.simps) simp

lemma RetryLoop_stop:
  "opn s = (Some err, c1, w1) \<Longrightarrow> asPermanentError err = None \<Longrightarrow>
   b (backoffs_taken w1) = Stop \<Longrightarrow>
   RetryLoop opn b s = Some (Some err, c1, w1\<lparr>backoffs_taken := Suc (backoffs_taken w1)\<rparr>)"
  by (subst RetryLoop.simps) (simp add: NextBackOff_def)

lemma RetryLoop_again:
  "opn s = (Some err, c1, w1) \<Longrightarrow> asPermanentError err = None \<Longrightarrow>
   b (backoffs_taken w1) \<noteq> Stop \<Longrightarrow>
   RetryLoop opn b s = RetryLoop opn b (c1, w1\<lparr>backoffs_taken := Suc (backoffs_taken w1)\<rparr>)"
  by (subst RetryLoop.simps) (simp add: NextBackOff_def)

lemma RetryLoop_skip:
  assumes "\<forall>i<n. retriable cond (h req (k + i)) \<and> b (j + i) \<noteq> Stop"
  shows "\<exists>rp. RetryLoop (operation h cond req) b
           (\<lparr>resp = rp0, attempts = a\<rparr>, \<lparr>requests_sent = k, backoffs_taken = j\<rparr>) =
         RetryLoop (operation h cond req) b
           (\<lparr>resp = rp, attempts = a + int n\<rparr>, \<lparr>requests_sent = k + n, backoffs_taken = j + n\<rparr>)"
  using assms
proof (induction n arbitrary: rp0 a k j)
  case 0
  then show ?case by auto
next
  case (Suc n)
  from Suc.prems have "retriable cond (h req k)" and b: "b j \<noteq> Stop"
    by (metis add.right_neutral zero_less_Suc)+
  then obtain e where e: "verdict cond (h req k) = Some e" and ne: "asPermanentError e = None"
    by (auto elim: retriableE)
  have rest: "\<forall>i<n. retriable cond (h req (Suc k + i)) \<and> b (Suc j + i) \<noteq> Stop"
    using Suc.prems by (metis Suc_less_eq add_Suc_shift)
  have step: "RetryLoop (operation h cond req) b
           (\<lparr>resp = rp0, attempts = a\<rparr>, \<lparr>requests_sent = k, backoffs_taken = j\<rparr>) =
        RetryLoop (operation h cond req) b
           (\<lparr>resp = received (h req k), attempts = a + 1\<rparr>, \<lparr>requests_sent = Suc k, backoffs_taken = Suc j\<rparr>)"
    using RetryLoop_again [of "operation h cond req"
        "(\<lparr>resp = rp0, attempts = a\<rparr>, \<lparr>requests_sent = k, backoffs_taken = j\<rparr>)" e
        "\<lparr>resp = received (h req k), attempts = a + 1\<rparr>"
        "\<lparr>requests_sent = Suc k, backoffs_taken = j\<rparr>" b]
    by (simp add: operation_eq e ne b)
  from Suc.IH [OF rest, of "received (h req k)" "a + 1"] obtain rp where
    "RetryLoop (operation h cond req) b
           (\<lparr>resp = received (h req k), attempts = a + 1\<rparr>, \<lparr>requests_sent = Suc k, backoffs_taken = Suc j\<rparr>) =
         RetryLoop (operation h cond req) b
           (\<lparr>resp = rp, attempts = a + 1 + int n\<rparr>, \<lparr>requests_sent = Suc k + n, backoffs_taken = Suc j + n\<rparr>)"
    by blast
  with step show ?case by (auto simp: algebra_simps)
qed

lemma Retry_fresh: "Retry opn b (c, world0) = RetryLoop opn b (c, world0)"
  by (simp add: Retry_def Reset_def world0_def)

lemma addAttempts_Some:
  "Request r = Some rq \<Longrightarrow> addAttemptsToRequest (Some r) n = Inr (Some (tagged r rq n))"
  by (simp add: addAttemptsToRequest_def tagged_def)

lemma addAttempts_bare:
  "Request r = None \<Longrightarrow> addAttemptsToRequest (Some r) n = Inl NilPointerDereference"
  by (simp add: addAttemptsToRequest_def)

lemma Attempts_tagged: "Attempts (Some (tagged r rq n)) = Inr n"
  by (simp add: Attempts_def tagged_def Value_def WithValue_def Context_def WithContext_def)

lemma RetryLoop_reach:
  assumes "\<forall>i<n. retriable cond (h req i) \<and> b i \<noteq> Stop"
  shows "\<exists>rp. RetryLoop (operation h cond req) b (closure0, world0) =
         RetryLoop (operation h cond req) b
           (\<lparr>resp = rp, attempts = int n\<rparr>, \<lparr>requests_sent = n, backoffs_taken = n\<rparr>)"
  using RetryLoop_skip [of n cond h req 0 b 0 None 0] assms
  by (simp add: closure0_def world0_def)

lemma RetryLoop_accepts:
  assumes "\<forall>i<n. retriable cond (h req i) \<and> b i \<noteq> Stop"
    and "verdict cond (h req n) = None"
  shows "RetryLoop (operation h cond req) b (closure0, world0) =
         Some (None, \<lparr>resp = received (h req n), attempts = int (Suc n)\<rparr>,
               \<lparr>requests_sent = Suc n, backoffs_taken = n\<rparr>)"
proof -
  from assms(1) RetryLoop_reach [of n cond h req b] obtain rp where
    "RetryLoop (operation h cond req) b (closure0, world0) =
     RetryLoop (operation h cond req) b
       (\<lparr>resp = rp, attempts = int n\<rparr>, \<lparr>requests_sent = n, backoffs_taken = n\<rparr>)"
    by blast
  moreover have "RetryLoop (operation h cond req) b
       (\<lparr>resp = rp, attempts = int n\<rparr>, \<lparr>requests_sent = n, backoffs_taken = n\<rparr>) =
     Some (None, \<lparr>resp = received (h req n), attempts = int (Suc n)\<rparr>,
               \<lparr>requests_sent = Suc n, backoffs_taken = n\<rparr>)"
    by (rule RetryLoop_nil) (simp add: operation_eq assms(2))
  ultimately show ?thesis by simp
qed

lemma RetryLoop_gives_up:
  assumes "\<forall>i<n. retriable cond (h req i) \<and> b i \<noteq> Stop"
    and "verdict cond (h req n) = Some err" and "asPermanentError err = Some e"
  shows "RetryLoop (operation h cond req) b (closure0, world0) =
         Some (Some e, \<lparr>resp = received (h req n), attempts = int (Suc n)\<rparr>,
               \<lparr>requests_sent = Suc n, backoffs_taken = n\<rparr>)"
proof -
  from assms(1) RetryLoop_reach [of n cond h req b] obtain rp where
    "RetryLoop (operation h cond req) b (closure0, world0) =
     RetryLoop (operation h cond req) b
       (\<lparr>resp = rp, attempts = int n\<rparr>, \<lparr>requests_sent = n, backoffs_taken = n\<rparr>)"
    by blast
  moreover have "RetryLoop (operation h cond req) b
       (\<lparr>resp = rp, attempts = int n\<rparr>, \<lparr>requests_sent = n, backoffs_taken = n\<rparr>) =
     Some (Some e, \<lparr>resp = received (h req n), attempts = int (Suc n)\<rparr>,
               \<lparr>requests_sent = Suc n, backoffs_taken = n\<rparr>)"
    using RetryLoop_permanent [of "operation h cond req"
        "(\<lparr>resp = rp, attempts = int n\<rparr>, \<lparr>requests_sent = n, backoffs_taken = n\<rparr>)" err
        "\<lparr>resp = received (h req n), attempts = int (Suc n)\<rparr>"
        "\<lparr>requests_sent = Suc n, backoffs_taken = n\<rparr>" e b]
    by (simp add: operation_eq assms(2,3))
  ultimately show ?thesis by simp
qed

lemma RetryLoop_exhausted:
  assumes "\<forall>i<n. retriable cond (h req i) \<and> b i \<noteq> Stop"
    and "verdict cond (h req n) = Some err" and "asPermanentError err = None"
    and "b n = Stop"
  shows "RetryLoop (operation h cond req) b (closure0, world0) =
         Some (Some err, \<lparr>resp = received (h req n), attempts = int (Suc n)\<rparr>,
               \<lparr>requests_sent = Suc n, backoffs_taken = Suc n\<rparr>)"
proof -
  from assms(1) RetryLoop_reach [of n cond h req b] obtain rp where
    "RetryLoop (operation h cond req) b (closure0, world0) =
     RetryLoop (operation h cond req) b
       (\<lparr>resp = rp, attempts = int n\<rparr>, \<lparr>requests_sent = n, backoffs_taken = n\<rparr>)"
    by blast
  moreover have "RetryLoop (operation h cond req) b
       (\<lparr>resp = rp, attempts = int n\<rparr>, \<lparr>requests_sent = n, backoffs_taken = n\<rparr>) =
     Some (Some err, \<lparr>resp = received (h req n), attempts = int (Suc n)\<rparr>,
               \<lparr>requests_sent = Suc n, backoffs_taken = Suc n\<rparr>)"
    using RetryLoop_stop [of "operation h cond req"
        "(\<lparr>resp = rp, attempts = int n\<rparr>, \<lparr>requests_sent = n, backoffs_taken = n\<rparr>)" err
        "\<lparr>resp = received (h req n), attempts = int (Suc n)\<rparr>"
        "\<lparr>requests_sent = Suc n, backoffs_taken = n\<rparr>" b]
    by (simp add: operation_eq assms(2,3,4))
  ultimately show ?thesis by simp
qed

lemma RetryLoop_counts:
  assumes "RetryLoop opn b s = Some y"
  shows "opn = operation h cond req \<longrightarrow>
         attempts (fst (snd y)) - attempts (fst s) =
           int (requests_sent (snd (snd y))) - int (requests_sent (snd s)) \<and>
         requests_sent (snd s) < requests_sent (snd (snd y)) \<and>
         resp (fst (snd y)) = received (h req (requests_sent (snd (snd y)) - 1))"
proof (rule RetryLoop.raw_induct [where P = "\<lambda>opn b s y. opn = operation h cond req \<longrightarrow>
         attempts (fst (snd y)) - attempts (fst s) =
           int (requests_sent (snd (snd y))) - int (requests_sent (snd s)) \<and>
         requests_sent (snd s) < requests_sent (snd (snd y)) \<and>
         resp (fst (snd y)) = received (h req (requests_sent (snd (snd y)) - 1))", OF _ assms])
  fix loop :: "(closure \<times> world \<Rightarrow> error option \<times> closure \<times> world) \<Rightarrow> BackOff \<Rightarrow>
     closure \<times> world \<Rightarrow> (error option \<times> closure \<times> world) option"
  fix opn b s y
  assume IH: "\<And>opn b s y. loop opn b s = Some y \<Longrightarrow>
         opn = operation h cond req \<longrightarrow>
         attempts (fst (snd y)) - attempts (fst s) =
           int (requests_sent (snd (snd y))) - int (requests_sent (snd s)) \<and>
         requests_sent (snd s) < requests_sent (snd (snd y)) \<and>
         resp (fst (snd y)) = received (h req (requests_sent (snd (snd y)) - 1))"
  assume body: "(case opn s of
        (None, s1) \<Rightarrow> Some (None, s1)
      | (Some err, c1, w1) \<Rightarrow>
          (case asPermanentError err of
             Some permanent \<Rightarrow> Some (Some permanent, c1, w1)
           | None \<Rightarrow>
               (case NextBackOff b w1 of
                  (next, w2) \<Rightarrow>
                    if next = Stop then Some (Some err, c1, w2)
                    else loop opn b (c1, w2)))) = Some y"
  show "opn = operation h cond req \<longrightarrow>
         attempts (fst (snd y)) - attempts (fst s) =
           int (requests_sent (snd (snd y))) - int (requests_sent (snd s)) \<and>
         requests_sent (snd s) < requests_sent (snd (snd y)) \<and>
         resp (fst (snd y)) = received (h req (requests_sent (snd (snd y)) - 1))"
  proof
    assume opn: "opn = operation h cond req"
    obtain c w where s: "s = (c, w)" by (cases s)
    let ?out = "h req (requests_sent w)"
    let ?c1 = "\<lparr>resp = received ?out, attempts = attempts c + 1\<rparr>"
    let ?w1 = "w\<lparr>requests_sent := Suc (requests_sent w)\<rparr>"
    have o: "opn s = (verdict cond ?out, ?c1, ?w1)"
      by (simp add: opn s operation_eq)
    show "attempts (fst (snd y)) - attempts (fst s) =
           int (requests_sent (snd (snd y))) - int (requests_sent (snd s)) \<and>
         requests_sent (snd s) < requests_sent (snd (snd y)) \<and>
         resp (fst (snd y)) = received (h req (requests_sent (snd (snd y)) - 1))"
    proof (cases "verdict cond ?out")
      case None
      with body o show ?thesis by (auto simp: s)
    next
      case (Some err)
      show ?thesis
      proof (cases "asPermanentError err")
        case (Some e)
        with body o \<open>verdict cond ?out = Some err\<close> show ?thesis by (auto simp: s)
      next
        case None
        show ?thesis
        proof (cases "b (backoffs_taken ?w1) = Stop")
          case True
          with body o \<open>verdict cond ?out = Some err\<close> None show ?thesis
            by (auto simp: s NextBackOff_def)
        next
          case False
          with body o \<open>verdict cond ?out = Some err\<close> None have
            "loop opn b (?c1, ?w1\<lparr>backoffs_taken := Suc (backoffs_taken ?w1)\<rparr>) = Some y"
            by (auto simp: s NextBackOff_def)
          from IH [OF this] opn show ?thesis by (auto simp: s)
        qed
      qed
    qed
  qed
qed

text \<open>
  A call that ends panics exactly when the last transport invocation left a nil
  response or a response whose request is nil.
\<close>

lemma NewBackoffClient_panics_iff:
  assumes "NewBackoffClient h b cond req world0 = Some (res, w)"
  shows "res = Inl NilPointerDereference \<longleftrightarrow>
         (case received (h req (requests_sent w - 1)) of
            None \<Rightarrow> True
          | Some r \<Rightarrow> Request r = None)"
proof -
  from assms obtain err c where
    loop: "RetryLoop (operation h cond req) b (closure0, world0) = Some (err, c, w)"
    and res: "res = (case addAttemptsToRequest (resp c) (attempts c) of
                       Inl p \<Rightarrow> Inl p | Inr rp \<Rightarrow> Inr (rp, err))"
    by (auto simp: NewBackoffClient_def Retry_fresh split: option.splits sum.splits)
  from RetryLoop_counts [OF loop, of h cond req]
  have last: "received (h req (requests_sent w - 1)) = resp c" by simp
  show ?thesis
  proof (cases "resp c")
    case None
    with res last show ?thesis by (simp add: addAttemptsToRequest_def)
  next
    case (Some r)
    with res last show ?thesis
      by (cases "Request r") (simp_all add: addAttempts_Some addAttempts_bare)
  qed
qed

section \<open>Calls that return\<close>

text \<open>
  After any number of retried attempts, an attempt whose response the conditioner
  returns a nil error for ends the call; when that response carries its request, the
  call returns it with a nil error and with the number of transport invocations bound
  in the request's context.
\<close>

lemma accept_returns:
  assumes "\<forall>i<n. retriable cond (h req i) \<and> b i \<noteq> Stop"
    and "h req n = Responded r" and "cond r = (shouldRetry, None)" and "Request r = Some rq"
  shows "NewBackoffClient h b cond req world0 =
           Some (Inr (Some (tagged r rq (int (Suc n))), None),
                 \<lparr>requests_sent = Suc n, backoffs_taken = n\<rparr>)"
proof -
  have "verdict cond (h req n) = None"
    using assms(2,3) by (simp add: verdict_def)
  from RetryLoop_accepts [of n cond h req b, OF assms(1) this] show ?thesis
    using assms(2,4)
    by (simp add: NewBackoffClient_def Retry_fresh received_def addAttempts_Some)
qed

text \<open>
  A response that the conditioner rejects for good ends the call at once; when it
  carries its request, the call returns it with the conditioner's diagnostic.
\<close>

lemma permanent_returns:
  assumes "\<forall>i<n. retriable cond (h req i) \<and> b i \<noteq> Stop"
    and "h req n = Responded r" and "cond r = (False, Some d)" and "Request r = Some rq"
  shows "NewBackoffClient h b cond req world0 =
           Some (Inr (Some (tagged r rq (int (Suc n))), Some d),
                 \<lparr>requests_sent = Suc n, backoffs_taken = n\<rparr>)"
proof -
  have "verdict cond (h req n) = Some (Permanent d)"
    using assms(2,3) by (simp add: verdict_def)
  from RetryLoop_gives_up [of n cond h req b "Permanent d" d, OF assms(1) this] show ?thesis
    using assms(2,4)
    by (simp add: NewBackoffClient_def Retry_fresh received_def addAttempts_Some)
qed

text \<open>
  A diagnostic that is itself a \<open>*backoff.PermanentError\<close> ends the call at once even
  when the conditioner asks for a retry: \<open>backoff.Retry\<close> returns the error it wraps.
\<close>

lemma retry_with_Permanent_returns:
  assumes "\<forall>i<n. retriable cond (h req i) \<and> b i \<noteq> Stop"
    and "h req n = Responded r" and "cond r = (True, Some (Permanent d))"
    and "Request r = Some rq"
  shows "NewBackoffClient h b cond req world0 =
           Some (Inr (Some (tagged r rq (int (Suc n))), Some d),
                 \<lparr>requests_sent = Suc n, backoffs_taken = n\<rparr>)"
proof -
  have "verdict cond (h req n) = Some (Permanent d)"
    using assms(2,3) by (simp add: verdict_def)
  from RetryLoop_gives_up [of n cond h req b "Permanent d" d, OF assms(1) this] show ?thesis
    using assms(2,4)
    by (simp add: NewBackoffClient_def Retry_fresh received_def addAttempts_Some)
qed

section \<open>The claims\<close>

text \<open>
  C1. A response that the conditioner accepts does not always end the call with a nil
  error and that response: \<open>addAttemptsToRequest\<close> calls \<open>Context()\<close> on
  \<open>resp.Request\<close>, and when the transport's \<open>RoundTripper\<close> left that field nil the call
  panics. Here the server answers 200 on the first attempt.
\<close>

theorem accepted_response_without_request_panics:
  "NewBackoffClient (bare_server_always 200) (stop_after 5 1000000) conditioner5XX
     example_request world0 =
     Some (Inl NilPointerDereference, \<lparr>requests_sent = 1, backoffs_taken = 0\<rparr>)"
proof -
  have "RetryLoop (operation (bare_server_always 200) conditioner5XX example_request)
          (stop_after 5 1000000) (closure0, world0) =
        Some (None, \<lparr>resp = received (bare_server_always 200 example_request 0),
                      attempts = int (Suc 0)\<rparr>,
              \<lparr>requests_sent = Suc 0, backoffs_taken = 0\<rparr>)"
    by (rule RetryLoop_accepts)
       (simp_all add: bare_server_always_def bare_reply_def verdict_def conditioner5XX_def OK_def)
  then show ?thesis
    by (simp add: NewBackoffClient_def Retry_fresh received_def bare_server_always_def
        bare_reply_def addAttempts_bare)
qed

text \<open>
  C2, as the code has it. When on every attempt the conditioner asks for a retry with
  a diagnostic that is not a \<open>*backoff.PermanentError\<close>, the policy grants \<open>N\<close> delays
  and then answers \<open>Stop\<close>, and the last response carries its request, the call makes
  \<open>N + 1\<close> transport invocations, the attempt count is \<open>N + 1\<close>, the error is the
  diagnostic of the last classification, and the last response is returned with it.
\<close>

theorem retries_exhausted:
  assumes "\<forall>i<N. \<exists>r' d'. h req i = Responded r' \<and> cond r' = (True, Some d') \<and>
             asPermanentError d' = None"
    and "\<forall>i<N. b i \<noteq> Stop" and "b N = Stop"
    and "h req N = Responded r" and "cond r = (True, Some d)"
    and "asPermanentError d = None" and "Request r = Some rq"
  shows "NewBackoffClient h b cond req world0 =
           Some (Inr (Some (tagged r rq (int (Suc N))), Some d),
                 \<lparr>requests_sent = Suc N, backoffs_taken = Suc N\<rparr>) \<and>
         Attempts (Some (tagged r rq (int (Suc N)))) = Inr (int (Suc N)) \<and>
         StatusCode (tagged r rq (int (Suc N))) = StatusCode r"
proof -
  have before: "\<forall>i<N. retriable cond (h req i) \<and> b i \<noteq> Stop"
  proof (intro allI impI)
    fix i assume i: "i < N"
    with assms(1) obtain r' d' where "h req i = Responded r'" and "cond r' = (True, Some d')"
      and "asPermanentError d' = None"
      by blast
    then have "retriable cond (h req i)" by (simp add: retriable_def verdict_def)
    with assms(2) i show "retriable cond (h req i) \<and> b i \<noteq> Stop"
      by blast
  qed
  have last: "verdict cond (h req N) = Some d"
    using assms(4,5) by (simp add: verdict_def)
  from RetryLoop_exhausted [of N cond h req b d, OF before last assms(6) assms(3)]
  have "NewBackoffClient h b cond req world0 =
          Some (Inr (Some (tagged r rq (int (Suc N))), Some d),
                \<lparr>requests_sent = Suc N, backoffs_taken = Suc N\<rparr>)"
    using assms(4,7)
    by (simp add: NewBackoffClient_def Retry_fresh received_def addAttempts_Some)
  moreover have "Attempts (Some (tagged r rq (int (Suc N)))) = Inr (int (Suc N))"
    by (rule Attempts_tagged)
  moreover have "StatusCode (tagged r rq (int (Suc N))) = StatusCode r"
    by (simp add: tagged_def)
  ultimately show ?thesis by blast
qed

theorem retries_exhausted_witness:
  "NewBackoffClient (server_always 500) (stop_after 2 1000000) conditioner5XX
     example_request world0 =
     Some (Inr (Some (tagged (reply 500 example_request) example_request 3),
                Some (PlainError ''bad status code 500'')),
           \<lparr>requests_sent = 3, backoffs_taken = 3\<rparr>) \<and>
   Attempts (Some (tagged (reply 500 example_request) example_request 3)) = Inr 3"
  using retries_exhausted [of 2 "server_always 500" example_request conditioner5XX
      "stop_after 2 1000000" "reply 500 example_request" "PlainError ''bad status code 500''"
      example_request]
  by (simp add: server_always_def stop_after_def Stop_def conditioner5XX_def
      RetriableErrorf_def reply_def printVerb_def extra_def itoa_def utoa.simps digit_def)

text \<open>
  C2 as it is stated fails: the conditioner \<open>retry_with_permanent\<close> asks for a retry
  with a non-nil diagnostic on every attempt and the policy grants two delays and then
  stops, yet the call makes one transport invocation, not three, never consults the
  policy, and returns the error that the diagnostic wraps, not the diagnostic.
\<close>

theorem retries_exhausted_counterexample:
  "retry_with_permanent (reply 500 example_request) = (True, Some (Permanent (PlainError ''bad''))) \<and>
   server_always 500 example_request 0 = Responded (reply 500 example_request) \<and>
   server_always 500 example_request 1 = Responded (reply 500 example_request) \<and>
   server_always 500 example_request 2 = Responded (reply 500 example_request) \<and>
   stop_after 2 1000000 0 \<noteq> Stop \<and> stop_after 2 1000000 1 \<noteq> Stop \<and>
   stop_after 2 1000000 2 = Stop \<and>
   NewBackoffClient (server_always 500) (stop_after 2 1000000) retry_with_permanent
     example_request world0 =
     Some (Inr (Some (tagged (reply 500 example_request) example_request 1),
                Some (PlainError ''bad'')),
           \<lparr>requests_sent = 1, backoffs_taken = 0\<rparr>) \<and>
   NewBackoffClient (server_always 500) (stop_after 2 1000000) retry_with_permanent
     example_request world0 \<noteq>
     Some (Inr (Some (tagged (reply 500 example_request) example_request 3),
                Some (Permanent (PlainError ''bad''))),
           \<lparr>requests_sent = 3, backoffs_taken = 3\<rparr>)"
proof -
  have "RetryLoop (operation (server_always 500) retry_with_permanent example_request)
          (stop_after 2 1000000) (closure0, world0) =
        Some (Some (PlainError ''bad''),
              \<lparr>resp = received (server_always 500 example_request 0), attempts = int (Suc 0)\<rparr>,
              \<lparr>requests_sent = Suc 0, backoffs_taken = 0\<rparr>)"
    by (rule RetryLoop_gives_up [where err = "Permanent (PlainError ''bad'')"])
       (simp_all add: server_always_def verdict_def retry_with_permanent_def)
  then have "NewBackoffClient (server_always 500) (stop_after 2 1000000) retry_with_permanent
     example_request world0 =
     Some (Inr (Some (tagged (reply 500 example_request) example_request 1),
                Some (PlainError ''bad'')),
           \<lparr>requests_sent = 1, backoffs_taken = 0\<rparr>)"
    by (simp add: NewBackoffClient_def Retry_fresh received_def server_always_def
        addAttempts_Some reply_def)
  then show ?thesis
    by (simp add: retry_with_permanent_def server_always_def stop_after_def Stop_def)
qed

text \<open>
  C3. A response that the conditioner rejects for good on the first attempt does not
  always come back with the diagnostic: when the \<open>RoundTripper\<close> left
  \<open>Response.Request\<close> nil, \<open>addAttemptsToRequest\<close> panics after that one transport
  invocation. Here the server answers 404.
\<close>

theorem rejected_response_without_request_panics:
  "NewBackoffClient (bare_server_always 404) (stop_after 5 1000000) conditioner5XX
     example_request world0 =
     Some (Inl NilPointerDereference, \<lparr>requests_sent = 1, backoffs_taken = 0\<rparr>)"
proof -
  let ?d = "PlainError (Sprintf ''bad status code %d'' [404])"
  have "RetryLoop (operation (bare_server_always 404) conditioner5XX example_request)
          (stop_after 5 1000000) (closure0, world0) =
        Some (Some ?d, \<lparr>resp = received (bare_server_always 404 example_request 0),
                        attempts = int (Suc 0)\<rparr>,
              \<lparr>requests_sent = Suc 0, backoffs_taken = 0\<rparr>)"
    by (rule RetryLoop_gives_up [where err = "Permanent ?d"])
       (simp_all add: bare_server_always_def bare_reply_def verdict_def conditioner5XX_def
          PermanentErrorf_def)
  then show ?thesis
    by (simp add: NewBackoffClient_def Retry_fresh received_def bare_server_always_def
        bare_reply_def addAttempts_bare)
qed

text \<open>
  C4. The error classifier returns the error as it is (retry) exactly when its message
  contains \<open>EOF\<close>, or it is a network error with the timeout flag, or it is a network
  error with the temporary flag; in every other case it returns the error wrapped by
  \<open>backoff.Permanent\<close>. For an error that is not itself a \<open>*backoff.PermanentError\<close>, as
  every error of \<open>http.Client.Do\<close> is, the result passes the type assertion of
  \<open>backoff.Retry\<close> exactly in that other case. It is a function of the error alone.
\<close>

theorem categorizeRequestError_decides:
  "(categorizeRequestError e = e \<longleftrightarrow>
      (\<exists>p q. Error e = p @ ''EOF'' @ q) \<or> (isNetError e \<and> Timeout e) \<or>
      (isNetError e \<and> Temporary e)) \<and>
   (categorizeRequestError e = Permanent e \<longleftrightarrow>
      \<not> ((\<exists>p q. Error e = p @ ''EOF'' @ q) \<or> (isNetError e \<and> Timeout e) \<or>
         (isNetError e \<and> Temporary e))) \<and>
   (asPermanentError e = None \<longrightarrow>
      (asPermanentError (categorizeRequestError e) = None \<longleftrightarrow>
         (\<exists>p q. Error e = p @ ''EOF'' @ q) \<or> (isNetError e \<and> Timeout e) \<or>
         (isNetError e \<and> Temporary e)))"
  by (cases e) (auto simp: categorizeRequestError_def Contains_iff)

theorem categorizeRequestError_decides_witness:
  "categorizeRequestError (PlainError ''unexpected EOF'') = PlainError ''unexpected EOF'' \<and>
   categorizeRequestError (NetError ''connection refused'' False False) =
     Permanent (NetError ''connection refused'' False False)"
proof -
  have "Error (PlainError ''unexpected EOF'') = ''unexpected '' @ ''EOF'' @ []" by simp
  then have "\<exists>p q. Error (PlainError ''unexpected EOF'') = p @ ''EOF'' @ q" by blast
  with categorizeRequestError_decides [of "PlainError ''unexpected EOF''"]
  have 1: "categorizeRequestError (PlainError ''unexpected EOF'') =
      PlainError ''unexpected EOF''"
    by blast
  have "\<not> Contains ''connection refused'' ''EOF''" by simp
  then have "\<not> (\<exists>p q. Error (NetError ''connection refused'' False False) = p @ ''EOF'' @ q)"
    by (simp add: Contains_iff)
  with categorizeRequestError_decides [of "NetError ''connection refused'' False False"]
  have 2: "categorizeRequestError (NetError ''connection refused'' False False) =
      Permanent (NetError ''connection refused'' False False)"
    by simp
  from 1 2 show ?thesis by simp
qed

text \<open>
  C5. When every transport invocation fails without a response and the policy answers
  \<open>Stop\<close>, the call does not return the last transport error with a nil response:
  \<open>addAttemptsToRequest\<close> dereferences the nil response and the call panics. Here the
  transport times out three times and the policy stops after two delays.
\<close>

theorem all_attempts_fail_panics:
  "NewBackoffClient always_timeout (stop_after 2 1000000) conditioner5XX example_request world0 =
     Some (Inl NilPointerDereference, \<lparr>requests_sent = 3, backoffs_taken = 3\<rparr>)"
proof -
  let ?e = "NetError ''net/http: timeout awaiting response headers'' True True"
  have e: "categorizeRequestError ?e = ?e"
    by (simp add: categorizeRequestError_def)
  have "RetryLoop (operation always_timeout conditioner5XX example_request)
          (stop_after 2 1000000) (closure0, world0) =
        Some (Some ?e, \<lparr>resp = received (always_timeout example_request 2),
                        attempts = int (Suc 2)\<rparr>,
              \<lparr>requests_sent = Suc 2, backoffs_taken = Suc 2\<rparr>)"
    by (rule RetryLoop_exhausted)
       (simp_all add: always_timeout_def verdict_def retriable_def e stop_after_def Stop_def)
  then show ?thesis
    by (simp add: NewBackoffClient_def Retry_fresh received_def always_timeout_def
        addAttemptsToRequest_def)
qed

text \<open>
  C6. \<open>Attempts\<close> on a nil response does not return 0: it dereferences the nil pointer
  and panics.
\<close>

theorem Attempts_nil_panics:
  "Attempts None = Inl NilPointerDereference"
  by (simp add: Attempts_def)

text \<open>
  C7. A transport error that the classifier wraps with \<open>backoff.Permanent\<close> ends the
  loop after one transport invocation and without a call of \<open>NextBackOff\<close>, but the
  error does not reach the caller when the response is nil: \<open>addAttemptsToRequest\<close>
  dereferences it and the call panics. Here the transport fails with an error that is
  neither a timeout nor temporary.
\<close>

theorem permanent_transport_error_panics:
  "NewBackoffClient no_such_host (stop_after 5 1000000) conditioner5XX example_request world0 =
     Some (Inl NilPointerDereference, \<lparr>requests_sent = 1, backoffs_taken = 0\<rparr>)"
proof -
  let ?e = "NetError ''dial tcp: lookup nohost.invalid: no such host'' False False"
  have e: "categorizeRequestError ?e = Permanent ?e"
    by (simp add: categorizeRequestError_def)
  have "RetryLoop (operation no_such_host conditioner5XX example_request)
          (stop_after 5 1000000) (closure0, world0) =
        Some (Some ?e, \<lparr>resp = received (no_such_host example_request 0),
                        attempts = int (Suc 0)\<rparr>,
              \<lparr>requests_sent = Suc 0, backoffs_taken = 0\<rparr>)"
    by (rule RetryLoop_gives_up [where err = "Permanent ?e"])
       (simp_all add: no_such_host_def verdict_def e)
  then show ?thesis
    by (simp add: NewBackoffClient_def Retry_fresh received_def no_such_host_def
        addAttemptsToRequest_def)
qed

text \<open>
  C8. \<open>NewDefaultBackoffClient5XX\<close> installs \<open>conditioner5XX\<close>, which for every status
  code asks for a retry with a diagnostic exactly when the code is in \<open>[500, 600)\<close>,
  accepts exactly when it is in \<open>[200, 300)\<close>, and rejects for good with a diagnostic
  for every other code.
\<close>

theorem conditioner5XX_decides:
  "NewDefaultBackoffClient5XX h b = NewBackoffClient h b conditioner5XX \<and>
   ((\<exists>d. conditioner5XX r = (True, Some d)) \<longleftrightarrow> 500 \<le> StatusCode r \<and> StatusCode r < 600) \<and>
   (conditioner5XX r = (False, None) \<longleftrightarrow> 200 \<le> StatusCode r \<and> StatusCode r < 300) \<and>
   ((\<exists>d. conditioner5XX r = (False, Some d)) \<longleftrightarrow>
      \<not> (500 \<le> StatusCode r \<and> StatusCode r < 600) \<and>
      \<not> (200 \<le> StatusCode r \<and> StatusCode r < 300))"
  by (simp add: NewDefaultBackoffClient5XX_def conditioner5XX_def RetriableErrorf_def
      PermanentErrorf_def OK_def)

theorem conditioner5XX_decides_witness:
  "(\<exists>d. conditioner5XX (reply 503 example_request) = (True, Some d)) \<and>
   conditioner5XX (reply 204 example_request) = (False, None) \<and>
   (\<exists>d. conditioner5XX (reply 302 example_request) = (False, Some d))"
  using conditioner5XX_decides [of _ _ "reply 503 example_request"]
    conditioner5XX_decides [of _ _ "reply 204 example_request"]
    conditioner5XX_decides [of _ _ "reply 302 example_request"]
  by (simp add: reply_def)

text \<open>
  C9. The attempt counter starts at 0; one run of the operation adds exactly one to it
  and makes exactly one transport invocation, so it never decreases; and whenever
  \<open>backoff.Retry\<close> returns, the counter is the number of transport invocations made and
  is at least 1. A call that returns to its caller has made at least one invocation, and
  the count it attached to the response is that number.
\<close>

theorem attempts_count_invocations:
  "attempts closure0 = 0 \<and>
   (\<forall>c w. attempts (fst (snd (operation h cond req (c, w)))) = attempts c + 1 \<and>
          requests_sent (snd (snd (operation h cond req (c, w)))) = Suc (requests_sent w)) \<and>
   (\<forall>err c w. Retry (operation h cond req) b (closure0, world0) = Some (err, c, w) \<longrightarrow>
      attempts c = int (requests_sent w) \<and> 1 \<le> attempts c) \<and>
   (\<forall>res w. NewBackoffClient h b cond req world0 = Some (res, w) \<longrightarrow>
      1 \<le> requests_sent w \<and>
      (\<forall>rp err. res = Inr (rp, err) \<longrightarrow> Attempts rp = Inr (int (requests_sent w))))"
proof (intro conjI allI impI)
  show "attempts closure0 = 0" by (simp add: closure0_def)
next
  fix c w
  show "attempts (fst (snd (operation h cond req (c, w)))) = attempts c + 1"
    by (simp add: operation_eq)
  show "requests_sent (snd (snd (operation h cond req (c, w)))) = Suc (requests_sent w)"
    by (simp add: operation_eq)
next
  fix err c w
  assume "Retry (operation h cond req) b (closure0, world0) = Some (err, c, w)"
  then have "RetryLoop (operation h cond req) b (closure0, world0) = Some (err, c, w)"
    by (simp add: Retry_fresh)
  from RetryLoop_counts [OF this, of h cond req]
  have "attempts c = int (requests_sent w) \<and> 0 < requests_sent w"
    by (simp add: closure0_def world0_def)
  then show "attempts c = int (requests_sent w)" and "1 \<le> attempts c" by auto
next
  fix res w
  assume call: "NewBackoffClient h b cond req world0 = Some (res, w)"
  then obtain err c where
    loop: "RetryLoop (operation h cond req) b (closure0, world0) = Some (err, c, w)"
    and res: "res = (case addAttemptsToRequest (resp c) (attempts c) of
                       Inl p \<Rightarrow> Inl p | Inr rp \<Rightarrow> Inr (rp, err))"
    by (auto simp: NewBackoffClient_def Retry_fresh split: option.splits sum.splits)
  from RetryLoop_counts [OF loop, of h cond req]
  have n: "attempts c = int (requests_sent w)" and pos: "0 < requests_sent w"
    by (simp_all add: closure0_def world0_def)
  from pos show "1 \<le> requests_sent w" by simp
  fix rp err'
  assume "res = Inr (rp, err')"
  with res obtain r rq where "resp c = Some r" and "Request r = Some rq"
    and "rp = Some (tagged r rq (attempts c))"
    by (cases "resp c"; cases "Request (the (resp c))")
       (auto simp: addAttemptsToRequest_def tagged_def)
  with n show "Attempts rp = Inr (int (requests_sent w))"
    by (simp add: Attempts_tagged)
qed

theorem attempts_count_invocations_witness:
  "Retry (operation server_500_then_200 conditioner5XX example_request) (stop_after 5 1000000)
     (closure0, world0) =
     Some (None, \<lparr>resp = Some (reply 200 example_request), attempts = 2\<rparr>,
           \<lparr>requests_sent = 2, backoffs_taken = 1\<rparr>) \<and>
   attempts \<lparr>resp = Some (reply 200 example_request), attempts = 2\<rparr> =
     int (requests_sent \<lparr>requests_sent = 2, backoffs_taken = 1\<rparr>) \<and>
   1 \<le> attempts \<lparr>resp = Some (reply 200 example_request), attempts = 2\<rparr>"
proof -
  have "RetryLoop (operation server_500_then_200 conditioner5XX example_request)
          (stop_after 5 1000000) (closure0, world0) =
        Some (None, \<lparr>resp = received (server_500_then_200 example_request 1),
                      attempts = int (Suc 1)\<rparr>,
              \<lparr>requests_sent = Suc 1, backoffs_taken = 1\<rparr>)"
    by (rule RetryLoop_accepts)
       (simp_all add: server_500_then_200_def verdict_def retriable_def conditioner5XX_def
          RetriableErrorf_def OK_def reply_def stop_after_def Stop_def)
  then have run: "Retry (operation server_500_then_200 conditioner5XX example_request)
      (stop_after 5 1000000) (closure0, world0) =
     Some (None, \<lparr>resp = Some (reply 200 example_request), attempts = 2\<rparr>,
           \<lparr>requests_sent = 2, backoffs_taken = 1\<rparr>)"
    by (simp add: Retry_fresh received_def server_500_then_200_def)
  from attempts_count_invocations [of server_500_then_200 conditioner5XX example_request
      "stop_after 5 1000000"] run
  have "attempts \<lparr>resp = Some (reply 200 example_request), attempts = 2\<rparr> =
     int (requests_sent \<lparr>requests_sent = 2, backoffs_taken = 1\<rparr>) \<and>
   1 \<le> attempts \<lparr>resp = Some (reply 200 example_request), attempts = 2\<rparr>"
    by blast
  with run show ?thesis by blast
qed

text \<open>
  C10. For a response whose request's context has no binding of the library's key,
  \<open>Attempts\<close> returns 0: \<open>Value\<close> returns nil, the type assertion to \<open>int\<close> fails and
  leaves the zero value.
\<close>

theorem Attempts_without_key:
  assumes "Request r = Some rq" and "Value (Context rq) contextKeyAttempts = None"
  shows "Attempts (Some r) = Inr 0"
  using assms by (simp add: Attempts_def)

theorem Attempts_without_key_witness:
  "Request (reply 200 traced_request) = Some traced_request \<and>
   Value (Context traced_request) contextKeyAttempts = None \<and>
   Attempts (Some (reply 200 traced_request)) = Inr 0"
proof -
  have r: "Request (reply 200 traced_request) = Some traced_request"
    by (simp add: reply_def)
  have h: "Value (Context traced_request) contextKeyAttempts = None"
    by (simp add: Value_def Context_def traced_request_def)
  from r h Attempts_without_key [OF r h] show ?thesis by simp
qed

end
